theory Spec2Isabelle
  imports Complex_Main
begin

section \<open>Python text\<close>

text \<open>
  A Python \<open>str\<close> is a sequence of Unicode code points. The model keeps that: a text is
  a list of code points, each a natural number, so that every text the program can read
  (also one with characters beyond Latin-1) is a value of the type. Literals of the
  source are written as ASCII strings and converted with \<open>py\<close>.
\<close>

type_synonym pystr = "nat list"

definition py :: "string \<Rightarrow> pystr" where
  "py s = map of_char s"

text \<open>
  \<open>str.isspace\<close> for one character, as CPython's table of white space has it, and the
  characters at which \<open>str.splitlines\<close> ends a line.
\<close>

definition isspace :: "nat \<Rightarrow> bool" where
  "isspace c \<longleftrightarrow>
     (9 \<le> c \<and> c \<le> 13) \<or> (28 \<le> c \<and> c \<le> 32) \<or> c = 133 \<or> c = 160 \<or> c = 5760 \<or>
     (8192 \<le> c \<and> c \<le> 8202) \<or> c = 8232 \<or> c = 8233 \<or> c = 8239 \<or> c = 8287 \<or>
     c = 12288"

definition islinebreak :: "nat \<Rightarrow> bool" where
  "islinebreak c \<longleftrightarrow>
     (10 \<le> c \<and> c \<le> 13) \<or> (28 \<le> c \<and> c \<le> 30) \<or> c = 133 \<or> c = 8232 \<or> c = 8233"

text \<open>\<open>s.rstrip()\<close> and \<open>s.strip()\<close> without argument: white space goes.\<close>

definition rstrip :: "pystr \<Rightarrow> pystr" where
  "rstrip s = rev (dropWhile isspace (rev s))"

definition strip :: "pystr \<Rightarrow> pystr" where
  "strip s = rstrip (dropWhile isspace s)"

text \<open>
  \<open>s.splitlines()\<close>: the text is cut at every line boundary, the boundary itself is
  dropped, a carriage return directly followed by a line feed is one boundary, and no
  empty line is added after a final boundary. The first argument holds the characters
  of the line being read, latest first.
\<close>

fun splitlines_from :: "pystr \<Rightarrow> pystr \<Rightarrow> pystr list" where
  "splitlines_from cur [] = (if cur = [] then [] else [rev cur])"
| "splitlines_from cur [c] =
     (if islinebreak c then [rev cur] else [rev (c # cur)])"
| "splitlines_from cur (c # d # cs) =
     (if c = 13 \<and> d = 10 then rev cur # splitlines_from [] cs
      else if islinebreak c then rev cur # splitlines_from [] (d # cs)
      else splitlines_from (c # cur) (d # cs))"

definition splitlines :: "pystr \<Rightarrow> pystr list" where
  "splitlines s = splitlines_from [] s"

text \<open>
  The physical lines of a source text, as the specification and the parser count them:
  a line ends at a line feed, at a carriage return, or at a carriage return directly
  followed by a line feed, and at nothing else. This is the notion the line numbers of
  the fact map and of the hit map follow; it is not taken from \<open>explain_file\<close>.
\<close>

fun physical_from :: "pystr \<Rightarrow> pystr \<Rightarrow> pystr list" where
  "physical_from cur [] = (if cur = [] then [] else [rev cur])"
| "physical_from cur [c] =
     (if c = 10 \<or> c = 13 then [rev cur] else [rev (c # cur)])"
| "physical_from cur (c # d # cs) =
     (if c = 13 \<and> d = 10 then rev cur # physical_from [] cs
      else if c = 10 \<or> c = 13 then rev cur # physical_from [] (d # cs)
      else physical_from (c # cur) (d # cs))"

definition physical_lines :: "pystr \<Rightarrow> pystr list" where
  "physical_lines s = physical_from [] s"

text \<open>\<open>str(n)\<close> for an integer: decimal digits, a minus sign for a negative one.\<close>

function str_nat :: "nat \<Rightarrow> pystr" where
  "str_nat n = (if n < 10 then [48 + n] else str_nat (n div 10) @ [48 + n mod 10])"
  by pat_completeness auto
termination
  by (relation "measure (\<lambda>n. n)") auto

declare str_nat.simps [simp del]

definition str_int :: "int \<Rightarrow> pystr" where
  "str_int i = (if i < 0 then 45 # str_nat (nat (- i)) else str_nat (nat i))"

text \<open>\<open>enumerate(xs, start=k)\<close>.\<close>

fun enumerate_from :: "int \<Rightarrow> 'a list \<Rightarrow> (int \<times> 'a) list" where
  "enumerate_from k [] = []"
| "enumerate_from k (x # xs) = (k, x) # enumerate_from (k + 1) xs"

section \<open>The merge of static facts and hit counts: \<open>explain_file\<close>\<close>

text \<open>
  One record per line of the listing, as the dictionary built at the end of the loop
  body: the line number, the line's text without trailing white space, and the facts.
\<close>

record explanation =
  line :: int
  code :: pystr
  facts :: "pystr list"

type_synonym factmap = "int \<rightharpoonup> pystr list"
type_synonym hitmap = "int \<rightharpoonup> int"

definition no_events :: pystr where
  "no_events = py ''(no AST events; likely comment/blank or simple expression)''"

definition runtime_fact :: "int \<Rightarrow> pystr" where
  "runtime_fact h = py ''runtime: executed '' @ str_int h @ py ''x''"

text \<open>
  The loop over \<open>enumerate(lines, start=1)\<close>. A line that is empty after \<open>strip()\<close> is
  skipped; otherwise \<open>line_info\<close> is the line's static facts (when the line is a key of
  the fact map), then the runtime fact (when the line is a key of the hit map), and the
  fixed note when that leaves it empty.
\<close>

definition line_info :: "factmap \<Rightarrow> hitmap \<Rightarrow> int \<Rightarrow> pystr list" where
  "line_info fm hm i =
     (let info = (case fm i of None \<Rightarrow> [] | Some fs \<Rightarrow> fs) @
                 (case hm i of None \<Rightarrow> [] | Some h \<Rightarrow> [runtime_fact h])
      in if info = [] then [no_events] else info)"

fun explain_loop :: "factmap \<Rightarrow> hitmap \<Rightarrow> (int \<times> pystr) list \<Rightarrow> explanation list" where
  "explain_loop fm hm [] = []"
| "explain_loop fm hm ((i, text) # rest) =
     (if strip text = [] then explain_loop fm hm rest
      else \<lparr>line = i, code = rstrip text, facts = line_info fm hm i\<rparr> #
           explain_loop fm hm rest)"

text \<open>
  \<open>explain_file\<close> from the point where its three inputs are bound: \<open>src\<close> is the text
  \<open>read_file\<close> returned, \<open>fm\<close> the dictionary of \<open>ast_facts(src)\<close>, and the pair the
  result of \<open>run_with_trace\<close>. Each of the three calls may raise instead, and then
  \<open>explain_file\<close> returns nothing.
\<close>

definition explain_file :: "pystr \<Rightarrow> factmap \<Rightarrow> hitmap \<times> pystr \<Rightarrow> explanation list \<times> pystr" where
  "explain_file src fm traced =
     (explain_loop fm (fst traced) (enumerate_from 1 (splitlines src)), snd traced)"

section \<open>The traced run: \<open>run_with_trace\<close>\<close>

text \<open>
  Exceptions are values. The three classes the program's own paths depend on are named,
  with the text they carry; any other exception (one the analysed code raises, a
  decoding or a parse error of the library) is \<open>Raised\<close> with its text.
\<close>

datatype exn = AttributeError pystr | RuntimeError pystr | SystemExit pystr | Raised pystr

text \<open>
  Objects, as far as the function tells them apart: a function or another callable of
  the analysed module, a value that cannot be called, and the two closures the function
  builds, \<open>stub_input\<close> over the buffer made from \<open>stdin_data\<close> and \<open>fast_sleep\<close> over
  the original \<open>time.sleep\<close>.
\<close>

datatype pyobj =
  Function nat | Plain nat | Closure_stub_input pystr | Closure_fast_sleep pyobj

fun callable :: "pyobj option \<Rightarrow> bool" where
  "callable None = False"
| "callable (Some (Plain _)) = False"
| "callable (Some _) = True"

text \<open>
  The part of the interpreter's state the function reads and writes: the bindings
  \<open>builtins.input\<close> and \<open>time.sleep\<close>, and whether the module \<open>contextlib\<close> has an
  attribute \<open>redirect_stdin\<close> (CPython's own \<open>contextlib\<close> defines \<open>redirect_stdout\<close>
  and \<open>redirect_stderr\<close> only; code that ran earlier in the process may have added it).
\<close>

record process =
  builtins_input :: pyobj
  time_sleep :: pyobj
  has_redirect_stdin :: bool

text \<open>
  What lies outside the file is a parameter. \<open>run_path\<close> is
  \<open>runpy.run_path(path, run_name="__not_main__")\<close>: it runs the module's top-level
  code, which may change the process, and gives the module's namespace or raises.
  \<open>runfunc\<close> is \<open>tracer.runfunc(func, *args, **kwargs)\<close> under the three redirections:
  it runs the entry routine, which may change the process, and either raises or
  completes, leaving the tracer's \<open>counts\<close> (a dictionary from file name and line
  number to hits, in insertion order) and the text written to \<open>out_buf\<close>.
\<close>

type_synonym rawcounts = "((pystr \<times> int) \<times> int) list"

record 'a runtime =
  run_path :: "pystr \<Rightarrow> process \<Rightarrow> process \<times> (exn + (pystr \<rightharpoonup> pyobj))"
  runfunc :: "pyobj \<Rightarrow> 'a list \<Rightarrow> (pystr \<times> 'a) list \<Rightarrow> process \<Rightarrow>
               process \<times> (exn + rawcounts \<times> pystr)"

text \<open>\<open>fname.endswith(path)\<close>.\<close>

definition endswith :: "pystr \<Rightarrow> pystr \<Rightarrow> bool" where
  "endswith s suffix \<longleftrightarrow> drop (length s - length suffix) s = suffix"

text \<open>
  The dictionary comprehension of line 122: the entries of \<open>counts\<close> are visited in
  order, an entry whose file name ends with \<open>path\<close> stores its hits under its line
  number (over an earlier entry of the same line number), any other entry is left out.
\<close>

definition file_counts :: "pystr \<Rightarrow> rawcounts \<Rightarrow> hitmap" where
  "file_counts path counts =
     foldl (\<lambda>m ((fname, ln), hits). if endswith fname path then m(ln \<mapsto> hits) else m)
       Map.empty counts"

text \<open>
  The \<open>with\<close> statement of lines 111 and 112. Its third item looks up
  \<open>contextlib.redirect_stdin\<close>; where the attribute is missing the lookup raises
  \<open>AttributeError\<close> before the entry routine is called.
\<close>

definition traced_call ::
  "'a runtime \<Rightarrow> pyobj \<Rightarrow> 'a list \<Rightarrow> (pystr \<times> 'a) list \<Rightarrow> process \<Rightarrow>
     process \<times> (exn + rawcounts \<times> pystr)" where
  "traced_call rt func args kwargs w =
     (if has_redirect_stdin w then runfunc rt func args kwargs w
      else (w, Inl (AttributeError (py ''redirect_stdin''))))"

text \<open>
  How the body of the \<open>try\<close> statement ends: by an exception, by one of its two
  \<open>return\<close> statements, or by reaching its end with the tracer's counts and the
  captured output.
\<close>

datatype body_exit =
  Body_raises exn | Body_returns "hitmap \<times> pystr" | Body_completes rawcounts pystr

text \<open>
  The body of the \<open>try\<close> statement (lines 103 to 115): the two stubs are installed, then
  \<open>if entry:\<close> (false for \<open>None\<close> and for the empty name) looks the entry up with
  \<open>globs.get\<close>.
\<close>

definition try_body ::
  "'a runtime \<Rightarrow> (pystr \<rightharpoonup> pyobj) \<Rightarrow> pystr option \<Rightarrow> 'a list \<Rightarrow> (pystr \<times> 'a) list \<Rightarrow>
     pystr \<Rightarrow> pyobj \<Rightarrow> process \<Rightarrow> process \<times> body_exit" where
  "try_body rt globs entry args kwargs stdin_data original_sleep w =
     (let w2 = w\<lparr>builtins_input := Closure_stub_input stdin_data,
                 time_sleep := Closure_fast_sleep original_sleep\<rparr>
      in case entry of
           None \<Rightarrow> (w2, Body_returns (Map.empty, []))
         | Some name \<Rightarrow>
             if name = [] then (w2, Body_returns (Map.empty, []))
             else if \<not> callable (globs name) then (w2, Body_returns (Map.empty, []))
             else (case traced_call rt (the (globs name)) args kwargs w2 of
                     (w3, Inl e) \<Rightarrow> (w3, Body_raises e)
                   | (w3, Inr (counts, out)) \<Rightarrow> (w3, Body_completes counts out)))"

text \<open>\<open>args or []\<close> and \<open>kwargs or {}\<close>.\<close>

definition or_empty :: "'b list option \<Rightarrow> 'b list" where
  "or_empty a = (case a of None \<Rightarrow> [] | Some xs \<Rightarrow> xs)"

text \<open>
  \<open>run_with_trace\<close>. The module is loaded; an exception there leaves the function
  before anything is installed. The originals are read, the \<open>try\<close> body runs, the
  \<open>finally\<close> clause writes the originals back on each of the three ways out of the
  body, and only a body that reached its end goes on to filter the counts.
\<close>

definition run_with_trace ::
  "'a runtime \<Rightarrow> pystr \<Rightarrow> pystr option \<Rightarrow> 'a list option \<Rightarrow> (pystr \<times> 'a) list option \<Rightarrow>
     pystr \<Rightarrow> process \<Rightarrow> process \<times> (exn + hitmap \<times> pystr)" where
  "run_with_trace rt path entry args kwargs stdin_data w =
     (case run_path rt path w of
        (w1, Inl e) \<Rightarrow> (w1, Inl e)
      | (w1, Inr globs) \<Rightarrow>
          (let original_input = builtins_input w1;
               original_sleep = time_sleep w1;
               (w3, body) = try_body rt globs entry (or_empty args) (or_empty kwargs)
                              stdin_data original_sleep w1;
               w4 = w3\<lparr>builtins_input := original_input, time_sleep := original_sleep\<rparr>
           in case body of
                Body_raises e \<Rightarrow> (w4, Inl e)
              | Body_returns r \<Rightarrow> (w4, Inr r)
              | Body_completes counts out \<Rightarrow> (w4, Inr (file_counts path counts, out))))"

subsection \<open>The input stub\<close>

text \<open>
  \<open>io.StringIO(stdin_data)\<close>: the text and the read position. \<open>readline\<close> gives the text
  from the position up to and including the next line feed, or up to the end when there
  is none, and moves the position behind it; at the end it gives the empty text.
\<close>

record string_io =
  buffer :: pystr
  pos :: nat

definition StringIO :: "pystr \<Rightarrow> string_io" where
  "StringIO initial = \<lparr>buffer = initial, pos = 0\<rparr>"

definition readline :: "string_io \<Rightarrow> pystr \<times> string_io" where
  "readline f =
     (let rest = drop (pos f) (buffer f);
          body = takeWhile (\<lambda>c. c \<noteq> 10) rest;
          ln = (if length body < length rest then body @ [10] else body)
      in (ln, f\<lparr>pos := pos f + length ln\<rparr>))"

text \<open>\<open>s.rstrip(chars)\<close>: trailing characters that are among \<open>chars\<close> go.\<close>

definition rstrip_chars :: "pystr \<Rightarrow> pystr \<Rightarrow> pystr" where
  "rstrip_chars chars s = rev (dropWhile (\<lambda>c. c \<in> set chars) (rev s))"

text \<open>
  \<open>stub_input\<close>, with the buffer it is closed over passed in and out. The prompt is
  ignored.
\<close>

definition stub_input :: "pystr option \<Rightarrow> string_io \<Rightarrow> pystr \<times> string_io" where
  "stub_input prompt fake_stdin =
     (let (ln, f) = readline fake_stdin
      in (if ln \<noteq> [] then rstrip_chars [10] ln else [], f))"

text \<open>The results of \<open>n\<close> calls of the stub, one after the other.\<close>

fun stub_reads :: "nat \<Rightarrow> string_io \<Rightarrow> pystr list" where
  "stub_reads 0 f = []"
| "stub_reads (Suc n) f = (let (r, f') = stub_input None f in r # stub_reads n f')"

text \<open>
  The lines of a buffer, as the specification of the stub words them: the pieces between
  line feeds, without the line feed, and no piece after a final line feed.
\<close>

fun lines_from :: "pystr \<Rightarrow> pystr \<Rightarrow> pystr list" where
  "lines_from cur [] = (if cur = [] then [] else [rev cur])"
| "lines_from cur (c # cs) =
     (if c = 10 then rev cur # lines_from [] cs else lines_from (c # cur) cs)"

definition buffer_lines :: "pystr \<Rightarrow> pystr list" where
  "buffer_lines s = lines_from [] s"

subsection \<open>The pause stub\<close>

text \<open>
  A Python \<open>float\<close> as far as comparison sees it: a finite value, one of the two
  infinities, or NaN. The finite values are read as reals, and the literal \<open>0.01\<close> as
  the real number one hundredth. \<open>float_less\<close> is \<open><\<close> on floats: false whenever a NaN
  takes part.
\<close>

datatype pyfloat = Finite real | PosInf | NegInf | NaN

fun float_less :: "pyfloat \<Rightarrow> pyfloat \<Rightarrow> bool" where
  "float_less NaN _ = False"
| "float_less _ NaN = False"
| "float_less (Finite x) (Finite y) = (x < y)"
| "float_less (Finite _) PosInf = True"
| "float_less (Finite _) NegInf = False"
| "float_less PosInf _ = False"
| "float_less NegInf NegInf = False"
| "float_less NegInf _ = True"

text \<open>\<open>\<le>\<close> on floats, for stating a bound; false whenever a NaN takes part.\<close>

fun float_le :: "pyfloat \<Rightarrow> pyfloat \<Rightarrow> bool" where
  "float_le NaN _ = False"
| "float_le _ NaN = False"
| "float_le (Finite x) (Finite y) = (x \<le> y)"
| "float_le (Finite _) PosInf = True"
| "float_le (Finite _) NegInf = False"
| "float_le PosInf PosInf = True"
| "float_le PosInf _ = False"
| "float_le NegInf _ = True"

text \<open>
  \<open>min(a, b)\<close> of two arguments keeps the first and takes the second only when the second
  is less than it.
\<close>

definition py_min :: "pyfloat \<Rightarrow> pyfloat \<Rightarrow> pyfloat" where
  "py_min a b = (if float_less b a then b else a)"

text \<open>
  \<open>fast_sleep\<close>. The conversion \<open>float(s)\<close> is a parameter: it gives the float or the
  exception it raises. The result is the duration with which \<open>original_sleep\<close> is
  called.
\<close>

definition fast_sleep :: "('v \<Rightarrow> exn + pyfloat) \<Rightarrow> 'v \<Rightarrow> exn + pyfloat" where
  "fast_sleep to_float s =
     (case to_float s of
        Inl e \<Rightarrow> Inl e
      | Inr d \<Rightarrow> Inr (py_min d (Finite (1 / 100))))"

section \<open>The rendering stage: \<open>call_local_llm\<close> and \<open>explain_with_llm\<close>\<close>

subsection \<open>The backend call\<close>

text \<open>
  One \<open>subprocess.run\<close> of the backend ends in one of three ways: the timeout expires,
  the process completes with a return code, or the call raises something else (the
  prompt cannot be encoded, the program cannot be started). The two byte strings of a
  completed process stand as what \<open>.decode("utf-8")\<close> makes of them: the text, or the
  exception the decoding raises.
\<close>

datatype run_outcome =
  TimeoutExpired | Completed int "exn + pystr" "exn + pystr" | Run_raises exn

definition failed_message :: pystr where
  "failed_message = py ''Ollama command failed. Check the error above.''"

definition timeout_message :: pystr where
  "timeout_message =
     py ''Ollama command timed out after multiple attempts. '' @
     py ''Ensure the model is available and try again.''"

definition no_runner_message :: pystr where
  "no_runner_message =
     py ''No local LLM runner found (expected Ollama). Install and retry.''"

text \<open>
  The loop \<open>for attempt in range(retries + 1)\<close>. The backend is a parameter: \<open>run
  prompt k\<close> is how the run of the backend on \<open>prompt\<close> ends when \<open>k\<close> runs were made
  before it. The loop returns the number of runs made so far with its result; a loop
  that came to its end without \<open>return\<close> or \<open>raise\<close> would make the function return
  \<open>None\<close>. What the function prints is left out.
\<close>

fun attempts ::
  "(pystr \<Rightarrow> nat \<Rightarrow> run_outcome) \<Rightarrow> pystr \<Rightarrow> nat \<Rightarrow> nat list \<Rightarrow> nat \<Rightarrow>
     nat \<times> (exn + pystr option)" where
  "attempts run prompt retries [] runs = (runs, Inr None)"
| "attempts run prompt retries (attempt # rest) runs =
     (case run prompt runs of
        Completed returncode out err \<Rightarrow>
          (if returncode \<noteq> 0 then
             (case err of
                Inl e \<Rightarrow> (Suc runs, Inl e)
              | Inr _ \<Rightarrow> (Suc runs, Inl (RuntimeError failed_message)))
           else
             (case out of
                Inl e \<Rightarrow> (Suc runs, Inl e)
              | Inr reply \<Rightarrow> (Suc runs, Inr (Some reply))))
      | TimeoutExpired \<Rightarrow>
          (if attempt < retries then attempts run prompt retries rest (Suc runs)
           else (Suc runs, Inl (SystemExit timeout_message)))
      | Run_raises e \<Rightarrow> (Suc runs, Inl e))"

text \<open>
  \<open>call_local_llm\<close>; \<open>use_ollama\<close> is the module constant \<open>USE_OLLAMA\<close>, set when the
  module is loaded.
\<close>

definition call_local_llm ::
  "bool \<Rightarrow> (pystr \<Rightarrow> nat \<Rightarrow> run_outcome) \<Rightarrow> pystr \<Rightarrow> nat \<Rightarrow> nat \<times> (exn + pystr option)" where
  "call_local_llm use_ollama run prompt runs =
     (if use_ollama then
        (let retries = 2 in attempts run prompt retries [0..<retries + 1] runs)
      else (runs, Inl (SystemExit no_runner_message)))"

subsection \<open>The pre-flag pass\<close>

text \<open>\<open>s.startswith(p)\<close>, \<open>sub in s\<close> and \<open>sep.join(xs)\<close>.\<close>

fun startswith :: "pystr \<Rightarrow> pystr \<Rightarrow> bool" where
  "startswith s [] = True"
| "startswith [] (p # ps) = False"
| "startswith (c # cs) (p # ps) = (c = p \<and> startswith cs ps)"

fun py_in :: "pystr \<Rightarrow> pystr \<Rightarrow> bool" where
  "py_in sub [] = (sub = [])"
| "py_in sub (c # cs) = (startswith (c # cs) sub \<or> py_in sub cs)"

fun join :: "pystr \<Rightarrow> pystr list \<Rightarrow> pystr" where
  "join sep [] = []"
| "join sep [x] = x"
| "join sep (x # y # ys) = x @ sep @ join sep (y # ys)"

text \<open>The list \<open>ff\<close> that the loop body builds from a record's facts.\<close>

definition flags_of :: "pystr list \<Rightarrow> pystr list" where
  "flags_of fs =
     (if \<not> list_ex (py_in (py ''runtime: executed'')) fs
      then [py ''never_executed_in_trace''] else []) @
     (if list_ex (\<lambda>f. py_in (py ''writes_to_network'') f \<or> py_in (py ''scrape_untrusted'') f) fs
      then [py ''risky_io_or_network''] else []) @
     (if list_ex (py_in (py ''execute_code'')) fs
      then [py ''dynamic_code_execution''] else [])"

text \<open>
  One turn of the loop on the record \<open>it\<close>: \<open>it["facts"].append(...)\<close> changes the list
  that the record holds, so the record the caller passed in is the record after the
  turn. Each record of \<open>explain_file\<close> holds a facts list of its own.
\<close>

definition preflag :: "explanation \<Rightarrow> explanation" where
  "preflag it =
     (let ff = flags_of (facts it)
      in if ff \<noteq> [] then it\<lparr>facts := facts it @ [py ''precheck_flags: '' @ join (py '','') ff]\<rparr>
         else it)"

subsection \<open>The prompt\<close>

definition SYSTEM_PROMPT :: pystr where
  "SYSTEM_PROMPT =
     py ''You are a code explainer.'' @ [10] @
     py ''You will be given, for each line: the original code and a list '' @
     py ''of FACTS derived from AST/runtime.'' @ [10] @ py ''RULES:'' @ [10] @
     py ''- ONLY restate those facts. Do not invent behavior or values '' @
     py ''not present in facts.'' @ [10] @ py ''- If something is unknown, say '' @
     [39] @ py ''unknown from provided facts'' @ [39] @ py ''.'' @ [10] @
     py ''- Keep explanations short (1'' @ [8211] @ py ''2 sentences per line).'' @
     [10] @ py ''- Include the line number.'' @ [10] @
     py ''- If a potential issue is EVIDENT from facts (e.g., never executed, '' @
     py ''risky IO, untrusted network, high fail rate), emit a '' @ [39] @
     py ''red_flag'' @ [39] @ py '' with a one-line reason.'' @ [10] @
     py ''- Output strict JSON: { '' @ [34] @ py ''lines'' @ [34] @ py '': [ { '' @
     [34] @ py ''line'' @ [34] @ py '': <int>, '' @ [34] @ py ''explanation'' @ [34] @
     py '': '' @ [34] @ py ''<string>'' @ [34] @ py '', '' @ [34] @ py ''red_flags'' @
     [34] @ py '': ['' @ [34] @ py ''...'' @ [34] @ py ''] } ] }''"

text \<open>
  \<open>build_user_prompt\<close>: one block per record, joined by line feeds and set into
  \<open>USER_TEMPLATE\<close>. \<open>json.dumps\<close> of a block is a parameter.
\<close>

definition build_user_prompt :: "(explanation \<Rightarrow> pystr) \<Rightarrow> explanation list \<Rightarrow> pystr" where
  "build_user_prompt dumps fs =
     py ''CODE FACTS:'' @ [10] @ join [10] (map dumps fs) @ [10] @
     py ''Now produce the JSON as specified.'' @ [10]"

definition full_prompt :: "(explanation \<Rightarrow> pystr) \<Rightarrow> explanation list \<Rightarrow> pystr" where
  "full_prompt dumps fs =
     py ''system'' @ [10] @ SYSTEM_PROMPT @ [10, 10] @ py ''user'' @ [10] @
     build_user_prompt dumps fs @ [10]"

subsection \<open>Cleaning and parsing the reply\<close>

text \<open>
  \<open>s.find(sub)\<close> and \<open>s.rfind(sub)\<close>: the first and the last index at which \<open>sub\<close>
  starts, \<open>-1\<close> when there is none.
\<close>

fun find_from :: "pystr \<Rightarrow> pystr \<Rightarrow> int \<Rightarrow> int" where
  "find_from [] sub i = (if sub = [] then i else - 1)"
| "find_from (c # cs) sub i = (if startswith (c # cs) sub then i else find_from cs sub (i + 1))"

definition find_str :: "pystr \<Rightarrow> pystr \<Rightarrow> int" where
  "find_str s sub = find_from s sub 0"

fun rfind_from :: "pystr \<Rightarrow> pystr \<Rightarrow> int \<Rightarrow> int \<Rightarrow> int" where
  "rfind_from [] sub i best = (if sub = [] then i else best)"
| "rfind_from (c # cs) sub i best =
     rfind_from cs sub (i + 1) (if startswith (c # cs) sub then i else best)"

definition rfind :: "pystr \<Rightarrow> pystr \<Rightarrow> int" where
  "rfind s sub = rfind_from s sub 0 (- 1)"

text \<open>
  The slice \<open>s[i:j]\<close>: a negative index counts from the end, both are brought into the
  range of the text, and an empty range gives the empty text.
\<close>

definition slice_index :: "nat \<Rightarrow> int \<Rightarrow> nat" where
  "slice_index n i = (if i < 0 then nat (max 0 (i + int n)) else min (nat i) n)"

definition slice :: "pystr \<Rightarrow> int \<Rightarrow> int \<Rightarrow> pystr" where
  "slice s i j = drop (slice_index (length s) i) (take (slice_index (length s) j) s)"

text \<open>The clean-up of lines 231 to 233; 123 and 125 are the two braces.\<close>

definition cleaned :: "pystr \<Rightarrow> pystr" where
  "cleaned raw =
     (let start = find_str raw [123];
          stop = rfind raw [125]
      in if start \<noteq> - 1 \<and> stop \<noteq> - 1 then slice raw start (stop + 1) else raw)"

text \<open>What \<open>json.loads\<close> can return.\<close>

datatype json =
  JNull | JBool bool | JInt int | JFloat pyfloat | JString pystr |
  JArray "json list" | JObject "(pystr \<times> json) list"

text \<open>
  What the rendering stage takes from outside: the constant \<open>USE_OLLAMA\<close>, the backend,
  and the two functions of the \<open>json\<close> module, \<open>loads\<close> with the exception it raises on
  a text that is not JSON.
\<close>

record llm_env =
  use_ollama :: bool
  subprocess_run :: "pystr \<Rightarrow> nat \<Rightarrow> run_outcome"
  json_dumps :: "explanation \<Rightarrow> pystr"
  json_loads :: "pystr \<Rightarrow> exn + json"

text \<open>
  \<open>explain_with_llm\<close>. The state is the list of records that was passed in (the loop
  changes them in place, whatever happens afterwards) and the number of backend runs;
  the result is the parsed reply or the exception. A reply of \<open>None\<close> has no \<open>find\<close>.
\<close>

definition explain_with_llm ::
  "llm_env \<Rightarrow> explanation list \<Rightarrow> nat \<Rightarrow> explanation list \<times> nat \<times> (exn + json)" where
  "explain_with_llm env fs runs =
     (let fs' = map preflag fs;
          prompt = full_prompt (json_dumps env) fs'
      in case call_local_llm (use_ollama env) (subprocess_run env) prompt runs of
           (runs', Inl e) \<Rightarrow> (fs', runs', Inl e)
         | (runs', Inr None) \<Rightarrow> (fs', runs', Inl (AttributeError (py ''find'')))
         | (runs', Inr (Some raw)) \<Rightarrow> (fs', runs', json_loads env (cleaned raw)))"

section \<open>Properties of the merge\<close>

text \<open>
  The loop, read as a whole: the records are built from the numbers of the lines that
  are not blank, in the order of the listing.
\<close>

lemma explain_loop_enumerate:
  "explain_loop fm hm (enumerate_from k xs) =
     map (\<lambda>i. \<lparr>line = i, code = rstrip (xs ! nat (i - k)), facts = line_info fm hm i\<rparr>)
       [i \<leftarrow> [k..k + int (length xs) - 1]. strip (xs ! nat (i - k)) \<noteq> []]"
proof (induction xs arbitrary: k)
  case Nil
  then show ?case by simp
next
  case (Cons x xs)
  let ?js = "[k + 1..(k + 1) + int (length xs) - 1]"
  have u: "[k..k + int (length (x # xs)) - 1] = k # ?js"
    by (simp add: upto_rec1)
  have idx: "(x # xs) ! nat (i - k) = xs ! nat (i - (k + 1))" if "i \<in> set ?js" for i
  proof -
    from that have "k + 1 \<le> i" by simp
    then have "nat (i - k) = Suc (nat (i - (k + 1)))" by simp
    then show ?thesis by simp
  qed
  have f: "[i \<leftarrow> ?js. strip ((x # xs) ! nat (i - k)) \<noteq> []]
         = [i \<leftarrow> ?js. strip (xs ! nat (i - (k + 1))) \<noteq> []]"
  proof (rule filter_cong[OF refl])
    fix i assume "i \<in> set ?js"
    from idx[OF this] show "(strip ((x # xs) ! nat (i - k)) \<noteq> []) =
        (strip (xs ! nat (i - (k + 1))) \<noteq> [])"
      by (simp only:)
  qed
  have m: "map (\<lambda>i. \<lparr>line = i, code = rstrip ((x # xs) ! nat (i - k)), facts = line_info fm hm i\<rparr>)
             [i \<leftarrow> ?js. strip (xs ! nat (i - (k + 1))) \<noteq> []]
         = map (\<lambda>i. \<lparr>line = i, code = rstrip (xs ! nat (i - (k + 1))), facts = line_info fm hm i\<rparr>)
             [i \<leftarrow> ?js. strip (xs ! nat (i - (k + 1))) \<noteq> []]"
  proof (rule map_cong[OF refl])
    fix i assume "i \<in> set [i \<leftarrow> ?js. strip (xs ! nat (i - (k + 1))) \<noteq> []]"
    then have "i \<in> set ?js" by simp
    from idx[OF this]
    show "\<lparr>line = i, code = rstrip ((x # xs) ! nat (i - k)), facts = line_info fm hm i\<rparr> =
          \<lparr>line = i, code = rstrip (xs ! nat (i - (k + 1))), facts = line_info fm hm i\<rparr>"
      by (simp only:)
  qed
  show ?case
    unfolding u using Cons.IH[of "k + 1"] f m by simp
qed

lemmas text_simps =
  py_def splitlines_def strip_def rstrip_def isspace_def islinebreak_def

text \<open>
  The loop covers the lines that \<open>splitlines\<close> gives: numbered from 1, the line numbers
  of the records are exactly the numbers of the lines that are not blank (not empty
  after \<open>strip\<close>), each once and in strictly ascending order.
\<close>

lemma explain_file_coverage:
  "map line (fst (explain_file src fm traced)) =
     [i \<leftarrow> [1..int (length (splitlines src))]. strip (splitlines src ! nat (i - 1)) \<noteq> []]
   \<and> sorted_wrt (<) (map line (fst (explain_file src fm traced)))
   \<and> distinct (map line (fst (explain_file src fm traced)))
   \<and> set (map line (fst (explain_file src fm traced))) =
       {i. 1 \<le> i \<and> i \<le> int (length (splitlines src)) \<and>
           strip (splitlines src ! nat (i - 1)) \<noteq> []}"
proof -
  let ?ls = "splitlines src"
  have e: "map line (fst (explain_file src fm traced)) =
     [i \<leftarrow> [1..int (length ?ls)]. strip (?ls ! nat (i - 1)) \<noteq> []]"
    by (simp add: explain_file_def explain_loop_enumerate comp_def)
  have s: "sorted_wrt (<) [i \<leftarrow> [1..int (length ?ls)]. strip (?ls ! nat (i - 1)) \<noteq> []]"
    by (rule sorted_wrt_filter) (simp add: strict_sorted_iff)
  have d: "distinct [i \<leftarrow> [1..int (length ?ls)]. strip (?ls ! nat (i - 1)) \<noteq> []]"
    by simp
  show ?thesis
    unfolding e using s d by auto
qed

text \<open>
  Where the source has no line boundary other than line feed and carriage return, the
  lines of \<open>splitlines\<close> are the physical lines, and the loop covers the physical lines.
\<close>

lemma splitlines_from_physical:
  "\<forall>c \<in> set s. islinebreak c \<longrightarrow> c = 10 \<or> c = 13 \<Longrightarrow>
     splitlines_from cur s = physical_from cur s"
  by (induction cur s rule: splitlines_from.induct) (auto simp: islinebreak_def)

lemma splitlines_physical:
  "\<forall>c \<in> set src. islinebreak c \<longrightarrow> c = 10 \<or> c = 13 \<Longrightarrow>
     splitlines src = physical_lines src"
  by (simp add: splitlines_def physical_lines_def splitlines_from_physical)

lemma explain_file_coverage_physical:
  assumes "\<forall>c \<in> set src. islinebreak c \<longrightarrow> c = 10 \<or> c = 13"
  shows "map line (fst (explain_file src fm traced)) =
     [i \<leftarrow> [1..int (length (physical_lines src))].
        strip (physical_lines src ! nat (i - 1)) \<noteq> []]"
  using explain_file_coverage[of src fm traced] splitlines_physical[OF assms] by simp

text \<open>
  Claim C1, at an input where the code departs from it. The source is \<open>x = 1\<close>, a form
  feed, a line feed, \<open>y = 2\<close>, a line feed: two physical lines, both not blank, and the
  parser puts \<open>y = 2\<close> on line 2, so the fact map is that of \<open>ast_facts\<close>, with one
  assignment on line 1 and one on line 2; nothing is traced. \<open>splitlines\<close> ends a line
  at the form feed as well, so the loop sees three lines, the second one empty: the
  records are numbered 1 and 3, there is no record for line 2, the record of \<open>y = 2\<close>
  carries a line number that the source does not have, and the fact of line 2 is lost.
\<close>

theorem explain_file_form_feed:
  "physical_lines (py ''x = 1'' @ [12, 10] @ py ''y = 2'' @ [10]) =
     [py ''x = 1'' @ [12], py ''y = 2''] \<and>
   fst (explain_file (py ''x = 1'' @ [12, 10] @ py ''y = 2'' @ [10])
          [1 \<mapsto> [py ''assign: x = 1''], 2 \<mapsto> [py ''assign: y = 2'']] (Map.empty, [])) =
     [\<lparr>line = 1, code = py ''x = 1'', facts = [py ''assign: x = 1'']\<rparr>,
      \<lparr>line = 3, code = py ''y = 2'', facts = [no_events]\<rparr>]"
  by (simp add: explain_file_def physical_lines_def text_simps line_info_def)




section \<open>Properties of the traced run\<close>

text \<open>
  Every entry of the filtered map comes from an entry of the tracer's counts whose file
  name ends with the path.
\<close>

lemma file_counts_foldl:
  "foldl (\<lambda>m ((fname, ln), hits). if endswith fname path then m(ln \<mapsto> hits) else m)
     m0 counts l = Some h
   \<Longrightarrow> m0 l = Some h \<or> (\<exists>fname. ((fname, l), h) \<in> set counts \<and> endswith fname path)"
proof (induction counts arbitrary: m0)
  case Nil
  then show ?case by simp
next
  case (Cons a counts)
  obtain fname k hits where a: "a = ((fname, k), hits)" by (metis surj_pair)
  from Cons.prems Cons.IH[of "if endswith fname path then m0(k \<mapsto> hits) else m0"]
  show ?case unfolding a by (auto split: if_splits)
qed

lemma file_counts_sound:
  "file_counts path counts l = Some h \<Longrightarrow>
     \<exists>fname. ((fname, l), h) \<in> set counts \<and> endswith fname path"
  using file_counts_foldl[of path Map.empty counts l h] by (simp add: file_counts_def)

text \<open>
  Claim C2, at an input where the code departs from it. The analysed path is \<open>a.py\<close>;
  loading it gives \<open>main\<close> (and a process in which \<open>redirect_stdin\<close> exists), and the
  traced call of \<open>main\<close> counts line 2 of \<open>a.py\<close> once and line 7 of \<open>/lib/data.py\<close>
  three times. The name \<open>/lib/data.py\<close> is another file, yet it ends with \<open>a.py\<close>, so
  the returned map holds the entry \<open>7 \<mapsto> 3\<close> of that other file.
\<close>

theorem run_with_trace_keeps_other_file:
  "(case snd (run_with_trace
      \<lparr>run_path = (\<lambda>p w. (w\<lparr>has_redirect_stdin := True\<rparr>, Inr [py ''main'' \<mapsto> Function 0])),
       runfunc = (\<lambda>f a k w.
         (w, Inr ([((py ''a.py'', 2), 1), ((py ''/lib/data.py'', 7), 3)], [])))\<rparr>
      (py ''a.py'') (Some (py ''main'')) (None :: nat list option) None []
      \<lparr>builtins_input = Function 1, time_sleep = Function 2, has_redirect_stdin = False\<rparr>) of
      Inl e \<Rightarrow> None | Inr (counts, out) \<Rightarrow> counts 7) = Some 3
   \<and> py ''/lib/data.py'' \<noteq> py ''a.py''"
  by (simp add: run_with_trace_def try_body_def traced_call_def or_empty_def py_def
      file_counts_def endswith_def)

text \<open>
  Claim C3. When the module has loaded and the entry name is set (not empty) but is not
  a key of the module's namespace, or is bound to a value that cannot be called, then
  \<open>run_with_trace\<close> returns the empty hit map and the empty output, and raises nothing.
\<close>

theorem run_with_trace_no_entry:
  assumes "run_path rt path w = (w1, Inr globs)" and "name \<noteq> []"
    and "globs name = None \<or> globs name = Some (Plain n)"
  shows "snd (run_with_trace rt path (Some name) args kwargs stdin_data w) = Inr (Map.empty, [])"
  using assms
  by (auto simp add: run_with_trace_def try_body_def Let_def split: prod.splits body_exit.splits)

theorem run_with_trace_no_entry_witness:
  "snd (run_with_trace
      \<lparr>run_path = (\<lambda>p w. (w, Inr [py ''helper'' \<mapsto> Plain 0])),
       runfunc = (\<lambda>f a k w. (w, Inr ([], [])))\<rparr>
      (py ''a.py'') (Some (py ''helper'')) (None :: nat list option) None []
      \<lparr>builtins_input = Function 1, time_sleep = Function 2, has_redirect_stdin = False\<rparr>)
    = Inr (Map.empty, [])"
  using run_with_trace_no_entry
    [of "\<lparr>run_path = (\<lambda>p w. (w, Inr [py ''helper'' \<mapsto> Plain 0])),
       runfunc = (\<lambda>f a k w. (w, Inr ([], [])))\<rparr>"
      "py ''a.py''"
      "\<lparr>builtins_input = Function 1, time_sleep = Function 2, has_redirect_stdin = False\<rparr>"
      "\<lparr>builtins_input = Function 1, time_sleep = Function 2, has_redirect_stdin = False\<rparr>"
      "[py ''helper'' \<mapsto> Plain 0]" "py ''helper''" 0 "None :: nat list option" None "[]"]
  by (simp add: py_def)

text \<open>
  Claim C6, as the code has it. Once the module has loaded, so that the stubs are
  installed, the process that \<open>run_with_trace\<close> leaves behind has \<open>builtins.input\<close>
  and \<open>time.sleep\<close> bound to what they were bound to when the stubs were installed
  (the values read after the load), whatever the entry name is (unset, not callable, or
  a routine that returns or raises) and whatever the traced routine did to the two
  bindings. These are the bindings from before the call whenever loading the module
  did not rebind them.
\<close>

theorem run_with_trace_restores:
  assumes "run_path rt path w = (w1, Inr globs)"
  shows "builtins_input (fst (run_with_trace rt path entry args kwargs stdin_data w)) =
           builtins_input w1
       \<and> time_sleep (fst (run_with_trace rt path entry args kwargs stdin_data w)) =
           time_sleep w1
       \<and> (builtins_input w1 = builtins_input w \<and> time_sleep w1 = time_sleep w \<longrightarrow>
           builtins_input (fst (run_with_trace rt path entry args kwargs stdin_data w)) =
             builtins_input w \<and>
           time_sleep (fst (run_with_trace rt path entry args kwargs stdin_data w)) =
             time_sleep w)"
  using assms
  by (simp add: run_with_trace_def Let_def split: prod.splits body_exit.splits)

text \<open>
  The exception path: the entry routine rebinds \<open>builtins.input\<close> and raises; the
  exception leaves the function and both bindings are the original ones.
\<close>

theorem run_with_trace_restores_witness:
  "builtins_input (fst (run_with_trace
      \<lparr>run_path = (\<lambda>p w. (w\<lparr>has_redirect_stdin := True\<rparr>, Inr [py ''main'' \<mapsto> Function 0])),
       runfunc = (\<lambda>f a k w. (w\<lparr>builtins_input := Plain 9\<rparr>, Inl (Raised (py ''boom''))))\<rparr>
      (py ''a.py'') (Some (py ''main'')) (None :: nat list option) None []
      \<lparr>builtins_input = Function 1, time_sleep = Function 2, has_redirect_stdin = False\<rparr>))
    = Function 1
   \<and> run_with_trace
      \<lparr>run_path = (\<lambda>p w. (w\<lparr>has_redirect_stdin := True\<rparr>, Inr [py ''main'' \<mapsto> Function 0])),
       runfunc = (\<lambda>f a k w. (w\<lparr>builtins_input := Plain 9\<rparr>, Inl (Raised (py ''boom''))))\<rparr>
      (py ''a.py'') (Some (py ''main'')) (None :: nat list option) None []
      \<lparr>builtins_input = Function 1, time_sleep = Function 2, has_redirect_stdin = False\<rparr>
    = (\<lparr>builtins_input = Function 1, time_sleep = Function 2, has_redirect_stdin = True\<rparr>,
       Inl (Raised (py ''boom'')))"
  using run_with_trace_restores
    [of "\<lparr>run_path = (\<lambda>p w. (w\<lparr>has_redirect_stdin := True\<rparr>, Inr [py ''main'' \<mapsto> Function 0])),
       runfunc = (\<lambda>f a k w. (w\<lparr>builtins_input := Plain 9\<rparr>, Inl (Raised (py ''boom''))))\<rparr>"
      "py ''a.py''"
      "\<lparr>builtins_input = Function 1, time_sleep = Function 2, has_redirect_stdin = False\<rparr>"
      "\<lparr>builtins_input = Function 1, time_sleep = Function 2, has_redirect_stdin = True\<rparr>"
      "[py ''main'' \<mapsto> Function 0]" "Some (py ''main'')" "None :: nat list option" None "[]"]
  by (simp add: run_with_trace_def try_body_def traced_call_def or_empty_def py_def)

text \<open>
  The claim speaks of the values from before the call. A module whose top-level code
  rebinds \<open>builtins.input\<close> is loaded before the originals are read: with no entry name
  the call returns normally, and \<open>builtins.input\<close> is the module's binding, not the one
  from before the call.
\<close>

theorem restores_after_load_counterexample:
  "run_with_trace
      \<lparr>run_path = (\<lambda>p w. (w\<lparr>builtins_input := Function 7\<rparr>, Inr Map.empty)),
       runfunc = (\<lambda>f a k w. (w, Inr ([], [])))\<rparr>
      (py ''a.py'') None (None :: nat list option) None []
      \<lparr>builtins_input = Function 1, time_sleep = Function 2, has_redirect_stdin = False\<rparr>
    = (\<lparr>builtins_input = Function 7, time_sleep = Function 2, has_redirect_stdin = False\<rparr>,
       Inr (Map.empty, []))
   \<and> Function 7 \<noteq> Function 1"
  by (simp add: run_with_trace_def try_body_def or_empty_def)

section \<open>Properties of the stubs\<close>

lemma lines_from_unfold:
  "lines_from cur s =
     (if cur = [] \<and> s = [] then []
      else (rev cur @ takeWhile (\<lambda>c. c \<noteq> 10) s) #
           lines_from [] (drop (Suc (length (takeWhile (\<lambda>c. c \<noteq> 10) s))) s))"
  by (induction s arbitrary: cur) auto

lemma buffer_lines_Nil: "buffer_lines [] = []"
  by (simp add: buffer_lines_def)

lemma buffer_lines_step:
  "s \<noteq> [] \<Longrightarrow> buffer_lines s =
     takeWhile (\<lambda>c. c \<noteq> 10) s #
     buffer_lines (drop (Suc (length (takeWhile (\<lambda>c. c \<noteq> 10) s))) s)"
  unfolding buffer_lines_def by (subst lines_from_unfold) simp

text \<open>A line that \<open>readline\<close> gives has at most the one line feed at its end.\<close>

lemma rstrip_newline:
  "rstrip_chars [10] (takeWhile (\<lambda>c. c \<noteq> 10) s @ [10]) = takeWhile (\<lambda>c. c \<noteq> 10) s"
  "rstrip_chars [10] (takeWhile (\<lambda>c. c \<noteq> 10) s) = takeWhile (\<lambda>c. c \<noteq> 10) s"
proof -
  have "dropWhile (\<lambda>c. c = 10) (rev (takeWhile (\<lambda>c. c \<noteq> 10) s)) =
        rev (takeWhile (\<lambda>c. c \<noteq> 10) s)"
    by (cases "rev (takeWhile (\<lambda>c. c \<noteq> 10) s)")
       (auto dest!: arg_cong[where f=set] dest: set_takeWhileD)
  then show "rstrip_chars [10] (takeWhile (\<lambda>c. c \<noteq> 10) s @ [10]) = takeWhile (\<lambda>c. c \<noteq> 10) s"
    and "rstrip_chars [10] (takeWhile (\<lambda>c. c \<noteq> 10) s) = takeWhile (\<lambda>c. c \<noteq> 10) s"
    by (simp_all add: rstrip_chars_def)
qed

lemma stub_input_result:
  "fst (stub_input p f) = takeWhile (\<lambda>c. c \<noteq> 10) (drop (pos f) (buffer f))"
  by (simp add: stub_input_def readline_def Let_def rstrip_newline)

lemma stub_input_rest:
  "drop (pos (snd (stub_input p f))) (buffer (snd (stub_input p f))) =
     drop (Suc (length (takeWhile (\<lambda>c. c \<noteq> 10) (drop (pos f) (buffer f)))))
       (drop (pos f) (buffer f))"
proof -
  let ?rest = "drop (pos f) (buffer f)"
  let ?body = "takeWhile (\<lambda>c. c \<noteq> 10) ?rest"
  have le: "length ?body \<le> length ?rest" by (rule length_takeWhile_le)
  show ?thesis
  proof (cases "length ?body < length ?rest")
    case True
    then show ?thesis
      by (simp add: stub_input_def readline_def Let_def add.commute)
  next
    case False
    with le have eq: "length ?body = length ?rest" by simp
    have "drop (pos f + length ?body) (buffer f) = []" using eq by simp
    moreover have "drop (Suc (length ?body)) ?rest = []" using eq by simp
    ultimately show ?thesis using False
      by (simp add: stub_input_def readline_def Let_def add.commute del: drop_drop length_drop)
  qed
qed

lemma take_append_replicate:
  "take n (xs @ replicate (Suc n) a) = take n (xs @ replicate n a)"
  by (simp add: min_def del: replicate.simps)

lemma stub_reads_rest:
  "stub_reads n f = take n (buffer_lines (drop (pos f) (buffer f)) @ replicate n [])"
proof (induction n arbitrary: f)
  case 0
  then show ?case by simp
next
  case (Suc n)
  let ?rest = "drop (pos f) (buffer f)"
  let ?f' = "snd (stub_input None f)"
  have step: "stub_reads (Suc n) f = fst (stub_input None f) # stub_reads n ?f'"
    by (simp add: case_prod_beta)
  have ih: "stub_reads n ?f' =
      take n (buffer_lines (drop (Suc (length (takeWhile (\<lambda>c. c \<noteq> 10) ?rest))) ?rest) @
              replicate n [])"
    using Suc.IH[of ?f'] by (simp only: stub_input_rest)
  show ?case
  proof (cases "?rest = []")
    case True
    then show ?thesis
      unfolding step ih stub_input_result by (simp add: buffer_lines_Nil)
  next
    case False
    have bl: "buffer_lines ?rest = takeWhile (\<lambda>c. c \<noteq> 10) ?rest #
        buffer_lines (drop (Suc (length (takeWhile (\<lambda>c. c \<noteq> 10) ?rest))) ?rest)"
      by (rule buffer_lines_step[OF False])
    show ?thesis
      unfolding step ih stub_input_result bl
      by (simp only: append_Cons take_Suc_Cons take_append_replicate)
  qed
qed

text \<open>
  Claim C7. For every buffer \<open>stdin_data\<close> and every number \<open>n\<close> of reads, the results of
  \<open>n\<close> successive calls of \<open>stub_input\<close> on \<open>StringIO(stdin_data)\<close> are the first \<open>n\<close>
  entries of the buffer's lines (the line feed taken off) followed by empty texts: the
  lines in order, and the empty text for every read after the last line.
\<close>

theorem stub_input_reads:
  "stub_reads n (StringIO stdin_data) = take n (buffer_lines stdin_data @ replicate n [])"
  using stub_reads_rest[of n "StringIO stdin_data"] by (simp add: StringIO_def)

theorem stub_input_reads_witness:
  "stub_reads 3 (StringIO (py ''a\<newline>b\<newline>'')) = [py ''a'', py ''b'', []]"
  using stub_input_reads [of 3 "py ''a\<newline>b\<newline>''"]
  by (simp add: buffer_lines_def py_def numeral_3_eq_3)

text \<open>
  Claim C8, as the code has it. When \<open>float(s)\<close> gives a float that is not NaN, the
  duration that \<open>fast_sleep\<close> hands to the original sleep is at most one hundredth of a
  second; when it gives NaN, NaN is handed on.
\<close>

theorem fast_sleep_clamps:
  assumes "to_float s = Inr x"
  shows "(x \<noteq> NaN \<longrightarrow>
           (\<exists>d. fast_sleep to_float s = Inr d \<and> float_le d (Finite (1 / 100))))
       \<and> (x = NaN \<longrightarrow> fast_sleep to_float s = Inr NaN)"
  using assms by (cases x) (auto simp: fast_sleep_def py_min_def)

theorem fast_sleep_clamps_witness:
  "fast_sleep Inr (Finite 5) = Inr (Finite (1 / 100)) \<and>
   float_le (Finite (1 / 100)) (Finite (1 / 100))"
  using fast_sleep_clamps [of Inr "Finite 5" "Finite 5"]
  by (simp add: fast_sleep_def py_min_def)

text \<open>
  A request of NaN (\<open>time.sleep(float("nan"))\<close> in the traced code) is not clamped:
  \<open>0.01 < nan\<close> is false, so \<open>min\<close> keeps the NaN, and NaN is not at most \<open>0.01\<close>.
\<close>

theorem fast_sleep_nan_counterexample:
  "fast_sleep Inr NaN = Inr NaN \<and> \<not> float_le NaN (Finite (1 / 100))"
  by (simp add: fast_sleep_def py_min_def)

section \<open>Properties of the rendering stage\<close>

lemma range3: "[0..<(2::nat) + 1] = [0, 1, 2]"
  by (simp add: upt_rec)

lemma call_unfold:
  "call_local_llm True run prompt n = attempts run prompt 2 [0, 1, 2] n"
  by (simp only: call_local_llm_def Let_def range3 if_True)

lemma attempts_not_timeout:
  assumes "run prompt n \<noteq> TimeoutExpired"
  shows "fst (attempts run prompt retries (a # rest) n) = Suc n"
  using assms by (simp split: run_outcome.splits sum.splits)

lemma attempts_exit:
  assumes "run prompt n = Completed rc out err" and "rc \<noteq> 0"
  shows "fst (attempts run prompt retries (a # rest) n) = Suc n
       \<and> (\<exists>e. snd (attempts run prompt retries (a # rest) n) = Inl e)"
  using assms by (simp split: sum.splits)

lemma attempts_reply:
  assumes "run prompt n = Completed 0 (Inr reply) err"
  shows "attempts run prompt retries (a # rest) n = (Suc n, Inr (Some reply))"
  using assms by simp

lemma attempts_timeout_retry:
  assumes "run prompt n = TimeoutExpired" and "a < retries"
  shows "attempts run prompt retries (a # rest) n = attempts run prompt retries rest (Suc n)"
  using assms by simp

lemma attempts_timeout_last:
  assumes "run prompt n = TimeoutExpired" and "\<not> a < retries"
  shows "attempts run prompt retries (a # rest) n = (Suc n, Inl (SystemExit timeout_message))"
  using assms by simp

text \<open>The loop makes at least one run when its range is not empty, and at most one per turn.\<close>

lemma attempts_runs:
  "n \<le> fst (attempts run prompt retries xs n) \<and>
   fst (attempts run prompt retries xs n) \<le> n + length xs \<and>
   (xs \<noteq> [] \<longrightarrow> n < fst (attempts run prompt retries xs n))"
proof (induction xs arbitrary: n)
  case Nil
  then show ?case by simp
next
  case (Cons a xs)
  show ?case
  proof (cases "run prompt n = TimeoutExpired")
    case False
    then show ?thesis
      using attempts_not_timeout[where run=run and prompt=prompt and n=n and retries=retries
          and a=a and rest=xs]
      by (simp del: attempts.simps)
  next
    case t: True
    show ?thesis
    proof (cases "a < retries")
      case True
      show ?thesis
        using Cons.IH[of "Suc n"]
          attempts_timeout_retry[where run=run and prompt=prompt and n=n and retries=retries
            and a=a and rest=xs, OF t True]
        by (simp del: attempts.simps)
    next
      case False
      show ?thesis
        using attempts_timeout_last[where run=run and prompt=prompt and n=n
            and retries=retries and a=a and rest=xs, OF t False]
        by (simp del: attempts.simps)
    qed
  qed
qed

lemma three_timeouts:
  assumes "\<forall>j<3. run prompt (n + j) = TimeoutExpired"
  shows "call_local_llm True run prompt n = (n + 3, Inl (SystemExit timeout_message))"
proof -
  have t: "run prompt n = TimeoutExpired" "run prompt (Suc n) = TimeoutExpired"
    "run prompt (Suc (Suc n)) = TimeoutExpired"
    using assms[rule_format, of 0] assms[rule_format, of 1] assms[rule_format, of 2]
    by simp_all
  show ?thesis
    unfolding call_unfold
    by (simp add: attempts_timeout_retry t attempts_timeout_last del: attempts.simps)
qed

text \<open>After \<open>k\<close> timeouts the loop stands at its turn \<open>k\<close>, with \<open>k\<close> runs made.\<close>

lemma after_timeouts:
  assumes "k < 3" and "\<forall>j<k. run prompt (n + j) = TimeoutExpired"
  shows "call_local_llm True run prompt n = attempts run prompt 2 (drop k [0, 1, 2]) (n + k)"
proof -
  from assms(1) consider "k = 0" | "k = 1" | "k = 2" by arith
  then show ?thesis
  proof cases
    case 1
    then show ?thesis by (simp add: call_unfold del: attempts.simps)
  next
    case 2
    with assms(2)[rule_format, of 0] have "run prompt n = TimeoutExpired" by simp
    with 2 show ?thesis
      by (simp add: call_unfold attempts_timeout_retry del: attempts.simps)
  next
    case 3
    with assms(2)[rule_format, of 0] assms(2)[rule_format, of 1]
    have t: "run prompt n = TimeoutExpired" "run prompt (Suc n) = TimeoutExpired" by simp_all
    have "attempts run prompt 2 [0, 1, 2] n = attempts run prompt 2 [2] (Suc (Suc n))"
      by (simp add: attempts_timeout_retry t del: attempts.simps)
    with 3 show ?thesis
      by (simp add: call_unfold numeral_2_eq_2 del: attempts.simps)
  qed
qed

lemma drop_range3: "k < 3 \<Longrightarrow> \<exists>a rest. drop k [0::nat, 1, 2] = a # rest"
  by (cases k) (auto simp: drop_Cons')

lemma retried_only_after_timeout:
  assumes "n + j + 1 < fst (call_local_llm True run prompt n)"
  shows "run prompt (n + j) = TimeoutExpired"
proof (rule ccontr)
  assume nt: "run prompt (n + j) \<noteq> TimeoutExpired"
  have b: "fst (call_local_llm True run prompt n) \<le> n + 3"
    using attempts_runs[of n run prompt 2 "[0, 1, 2]"]
    by (simp add: call_unfold del: attempts.simps)
  with assms have j3: "j < 3" by arith
  define k where "k = (LEAST i. run prompt (n + i) \<noteq> TimeoutExpired)"
  have kn: "run prompt (n + k) \<noteq> TimeoutExpired"
    unfolding k_def using nt by (rule LeastI)
  have kj: "k \<le> j" unfolding k_def using nt by (rule Least_le)
  have before: "\<forall>i<k. run prompt (n + i) = TimeoutExpired"
    unfolding k_def using not_less_Least by blast
  from kj j3 have k3: "k < 3" by simp
  obtain a rest where d: "drop k [0::nat, 1, 2] = a # rest"
    using drop_range3[OF k3] by blast
  have "fst (call_local_llm True run prompt n) = Suc (n + k)"
    using after_timeouts[where run=run and prompt=prompt and n=n and k=k, OF k3 before]
      attempts_not_timeout[where run=run and prompt=prompt and n="n + k" and retries=2
        and a=a and rest=rest, OF kn]
    by (simp only: d)
  with assms kj show False by simp
qed

lemma exit_at:
  assumes "k < 3" and "\<forall>j<k. run prompt (n + j) = TimeoutExpired"
    and "run prompt (n + k) = Completed rc out err" and "rc \<noteq> 0"
  shows "fst (call_local_llm True run prompt n) = n + k + 1
       \<and> (\<exists>e. snd (call_local_llm True run prompt n) = Inl e)"
proof -
  obtain a rest where d: "drop k [0::nat, 1, 2] = a # rest"
    using drop_range3[OF assms(1)] by blast
  show ?thesis
    using attempts_exit[where run=run and prompt=prompt and n="n + k" and retries=2
        and a=a and rest=rest, OF assms(3,4)]
      after_timeouts[where run=run and prompt=prompt and n=n and k=k, OF assms(1,2)]
    by (simp only: d) simp
qed

lemma reply_at:
  assumes "k < 3" and "\<forall>j<k. run prompt (n + j) = TimeoutExpired"
    and "run prompt (n + k) = Completed 0 (Inr reply) err"
  shows "call_local_llm True run prompt n = (n + k + 1, Inr (Some reply))"
proof -
  obtain a rest where d: "drop k [0::nat, 1, 2] = a # rest"
    using drop_range3[OF assms(1)] by blast
  show ?thesis
    using attempts_reply[where run=run and prompt=prompt and n="n + k" and retries=2
        and a=a and rest=rest, OF assms(3)]
      after_timeouts[where run=run and prompt=prompt and n=n and k=k, OF assms(1,2)]
    by (simp only: d) simp
qed

text \<open>
  Claim C5. With the backend available, and \<open>n\<close> runs made before the call:
  \<^item> \<open>call_local_llm\<close> makes at least one and at most three runs of the backend;
  \<^item> a run is followed by another run only when it timed out;
  \<^item> when all three runs time out the call ends with \<open>SystemExit\<close>;
  \<^item> when a run, reached through timeouts only, completes with a return code other
    than 0, the call ends with an exception and that run is the last one;
  \<^item> when a run, reached through timeouts only, completes with return code 0 (and a
    decodable output), the call returns that output and that run is the last one.
\<close>

theorem call_local_llm_retry_policy:
  "(n < fst (call_local_llm True run prompt n) \<and>
    fst (call_local_llm True run prompt n) \<le> n + 3) \<and>
   (\<forall>j. n + j + 1 < fst (call_local_llm True run prompt n) \<longrightarrow>
      run prompt (n + j) = TimeoutExpired) \<and>
   ((\<forall>j<3. run prompt (n + j) = TimeoutExpired) \<longrightarrow>
     call_local_llm True run prompt n = (n + 3, Inl (SystemExit timeout_message))) \<and>
   (\<forall>k<3. \<forall>rc out err. (\<forall>j<k. run prompt (n + j) = TimeoutExpired) \<and>
       run prompt (n + k) = Completed rc out err \<and> rc \<noteq> 0 \<longrightarrow>
     fst (call_local_llm True run prompt n) = n + k + 1 \<and>
     (\<exists>e. snd (call_local_llm True run prompt n) = Inl e)) \<and>
   (\<forall>k<3. \<forall>reply err. (\<forall>j<k. run prompt (n + j) = TimeoutExpired) \<and>
       run prompt (n + k) = Completed 0 (Inr reply) err \<longrightarrow>
     call_local_llm True run prompt n = (n + k + 1, Inr (Some reply)))"
proof (intro conjI)
  show "n < fst (call_local_llm True run prompt n)"
    and "fst (call_local_llm True run prompt n) \<le> n + 3"
    using attempts_runs[of n run prompt 2 "[0, 1, 2]"]
    by (simp_all add: call_unfold del: attempts.simps)
  show "\<forall>j. n + j + 1 < fst (call_local_llm True run prompt n) \<longrightarrow>
      run prompt (n + j) = TimeoutExpired"
    using retried_only_after_timeout by blast
  show "(\<forall>j<3. run prompt (n + j) = TimeoutExpired) \<longrightarrow>
     call_local_llm True run prompt n = (n + 3, Inl (SystemExit timeout_message))"
    using three_timeouts by blast
  show "\<forall>k<3. \<forall>rc out err. (\<forall>j<k. run prompt (n + j) = TimeoutExpired) \<and>
       run prompt (n + k) = Completed rc out err \<and> rc \<noteq> 0 \<longrightarrow>
     fst (call_local_llm True run prompt n) = n + k + 1 \<and>
     (\<exists>e. snd (call_local_llm True run prompt n) = Inl e)"
    using exit_at by blast
  show "\<forall>k<3. \<forall>reply err. (\<forall>j<k. run prompt (n + j) = TimeoutExpired) \<and>
       run prompt (n + k) = Completed 0 (Inr reply) err \<longrightarrow>
     call_local_llm True run prompt n = (n + k + 1, Inr (Some reply))"
    using reply_at by blast
qed

text \<open>
  Two timeouts and then a return code of 1: three runs, an exception, no fourth run.
\<close>

theorem call_local_llm_retry_policy_witness:
  "(\<lambda>p k. if k < 2 then TimeoutExpired else Completed 1 (Inr []) (Inr [])) [] (0::nat) =
      TimeoutExpired \<and>
   (\<lambda>p k. if k < 2 then TimeoutExpired else Completed 1 (Inr []) (Inr [])) [] (2::nat) =
      Completed 1 (Inr []) (Inr []) \<and>
   fst (call_local_llm True
         (\<lambda>p k. if k < 2 then TimeoutExpired else Completed 1 (Inr []) (Inr [])) [] 0) = 3 \<and>
   (\<exists>e. snd (call_local_llm True
         (\<lambda>p k. if k < 2 then TimeoutExpired else Completed 1 (Inr []) (Inr [])) [] 0) = Inl e)"
proof -
  let ?run = "\<lambda>(p::pystr) (k::nat).
      if k < 2 then TimeoutExpired else Completed 1 (Inr []) (Inr [])"
  have p: "\<forall>k<3. \<forall>rc out err. (\<forall>j<k. ?run [] (0 + j) = TimeoutExpired) \<and>
       ?run [] (0 + k) = Completed rc out err \<and> rc \<noteq> 0 \<longrightarrow>
     fst (call_local_llm True ?run [] 0) = 0 + k + 1 \<and>
     (\<exists>e. snd (call_local_llm True ?run [] 0) = Inl e)"
    using call_local_llm_retry_policy[of 0 ?run "[]"] by blast
  have "fst (call_local_llm True ?run [] 0) = 0 + 2 + 1 \<and>
     (\<exists>e. snd (call_local_llm True ?run [] 0) = Inl e)"
    using p[rule_format, of 2 1 "Inr []" "Inr []"] by simp
  then show ?thesis by simp
qed

text \<open>
  The pre-flag pass on one record: line and text stay; the facts stay when no flag
  applies, and otherwise get the one string of the flags at their end.
\<close>

lemma preflag_exact:
  "line (preflag r) = line r \<and> code (preflag r) = code r \<and>
   ((flags_of (facts r) = [] \<and> facts (preflag r) = facts r) \<or>
    (flags_of (facts r) \<noteq> [] \<and>
       facts (preflag r) =
         facts r @ [py ''precheck_flags: '' @ join (py '','') (flags_of (facts r))]))"
  by (cases "flags_of (facts r) = []") (auto simp: preflag_def Let_def)

lemma explain_with_llm_records:
  "fst (explain_with_llm env fs runs) = map preflag fs"
  by (simp add: explain_with_llm_def Let_def split: prod.splits sum.splits option.splits)

text \<open>
  Claim C9, as the code has it. The rendering stage leaves the caller's records in this
  state, whether the backend call then succeeds or fails: as many records in the same
  order, each with its line number and its text unchanged, and with its facts unchanged
  when no flag applies to them, and otherwise longer by exactly one string at the end,
  \<open>precheck_flags: \<close> followed by the record's flags (those of \<open>flags_of\<close>) joined by
  commas. No fact is removed, changed or moved.
\<close>

theorem preflag_appends_only:
  "list_all2 (\<lambda>r r'. line r' = line r \<and> code r' = code r \<and>
       ((flags_of (facts r) = [] \<and> facts r' = facts r) \<or>
        (flags_of (facts r) \<noteq> [] \<and>
           facts r' =
             facts r @ [py ''precheck_flags: '' @ join (py '','') (flags_of (facts r))])))
     fs (fst (explain_with_llm env fs runs))"
  unfolding explain_with_llm_records
  by (simp add: list_all2_map2 list.rel_refl_strong preflag_exact)

text \<open>The records that the merge builds for the one-line source \<open># hi\<close>, with no backend.\<close>

theorem preflag_appends_only_witness:
  "list_all2 (\<lambda>r r'. line r' = line r \<and> code r' = code r \<and>
       ((flags_of (facts r) = [] \<and> facts r' = facts r) \<or>
        (flags_of (facts r) \<noteq> [] \<and>
           facts r' =
             facts r @ [py ''precheck_flags: '' @ join (py '','') (flags_of (facts r))])))
     (fst (explain_file (py ''# hi'') Map.empty (Map.empty, [])))
     (fst (explain_with_llm
        \<lparr>use_ollama = False, subprocess_run = (\<lambda>p k. TimeoutExpired),
         json_dumps = (\<lambda>r. []), json_loads = (\<lambda>s. Inr JNull)\<rparr>
        (fst (explain_file (py ''# hi'') Map.empty (Map.empty, []))) 0))"
  by (rule preflag_appends_only)

text \<open>
  The record of the one-line source \<open># hi\<close> (the empty fact map is what \<open>ast_facts\<close>
  gives for it; nothing is traced): after the merge its facts are the note alone; after
  the rendering stage (here with no backend, so that the stage ends with \<open>SystemExit\<close>)
  the same record holds a second fact.
\<close>

theorem preflag_changes_facts_counterexample:
  "fst (explain_file (py ''# hi'') Map.empty (Map.empty, [])) =
     [\<lparr>line = 1, code = py ''# hi'', facts = [no_events]\<rparr>] \<and>
   fst (explain_with_llm
       \<lparr>use_ollama = False, subprocess_run = (\<lambda>p k. TimeoutExpired),
        json_dumps = (\<lambda>r. []), json_loads = (\<lambda>s. Inr JNull)\<rparr>
       (fst (explain_file (py ''# hi'') Map.empty (Map.empty, []))) 0) =
     [\<lparr>line = 1, code = py ''# hi'',
       facts = [no_events, py ''precheck_flags: never_executed_in_trace'']\<rparr>]"
  by (simp add: explain_with_llm_def explain_file_def text_simps line_info_def no_events_def
      call_local_llm_def preflag_def flags_of_def Let_def)

lemma find_from_absent: "c \<notin> set s \<Longrightarrow> find_from s [c] i = - 1"
  by (induction s arbitrary: i) auto

lemma rfind_from_absent: "c \<notin> set s \<Longrightarrow> rfind_from s [c] i best = best"
  by (induction s arbitrary: i best) auto

lemma cleaned_without_braces:
  "123 \<notin> set raw \<or> 125 \<notin> set raw \<Longrightarrow> cleaned raw = raw"
  by (auto simp: cleaned_def find_str_def rfind_def find_from_absent rfind_from_absent Let_def)

text \<open>
  Claim C10. When the backend call returns a reply \<open>raw\<close> that has no opening brace or no
  closing brace, \<open>explain_with_llm\<close> hands the whole of \<open>raw\<close>, unchanged, to
  \<open>json.loads\<close>, and its result is the result of that parse: the parsed value when \<open>raw\<close>
  is JSON (a bare array, say), the parser's exception otherwise.
\<close>

theorem explain_with_llm_parses_whole_reply:
  assumes "call_local_llm (use_ollama env) (subprocess_run env)
             (full_prompt (json_dumps env) (map preflag fs)) runs = (runs', Inr (Some raw))"
    and "123 \<notin> set raw \<or> 125 \<notin> set raw"
  shows "explain_with_llm env fs runs = (map preflag fs, runs', json_loads env raw)"
  using assms(1) cleaned_without_braces[OF assms(2)]
  by (simp add: explain_with_llm_def Let_def)

theorem explain_with_llm_parses_whole_reply_witness:
  "123 \<notin> set (py ''[]'') \<and>
   explain_with_llm
     \<lparr>use_ollama = True,
      subprocess_run = (\<lambda>p k. Completed 0 (Inr (py ''[]'')) (Inr [])),
      json_dumps = (\<lambda>r. []),
      json_loads = (\<lambda>s. if s = py ''[]'' then Inr (JArray [])
                        else Inl (Raised (py ''JSONDecodeError'')))\<rparr>
     [] 0 = ([], 1, Inr (JArray []))"
  using explain_with_llm_parses_whole_reply
    [of "\<lparr>use_ollama = True,
      subprocess_run = (\<lambda>p k. Completed 0 (Inr (py ''[]'')) (Inr [])),
      json_dumps = (\<lambda>r. []),
      json_loads = (\<lambda>s. if s = py ''[]'' then Inr (JArray [])
                        else Inl (Raised (py ''JSONDecodeError'')))\<rparr>"
      "[]" 0 1 "py ''[]''"]
  by (simp add: call_unfold py_def)

end
